theory Spec2Isabelle
  imports Main
begin

unbundle bit_operations_syntax

section \<open>JavaScript values\<close>

text \<open>
  The webhook handler works on the values that \<^verbatim>\<open>JSON.parse\<close> produces, and on
  \<^verbatim>\<open>undefined\<close> for a property that is not there. A number is given by a literal
  that denotes it, as it is in a JSON text: \<open>Num i\<close> is the number that the integer
  literal \<open>i\<close> denotes and \<open>Dec i k\<close> the number that the decimal literal
  \<open>i / 10 ^ k\<close> denotes (\<^verbatim>\<open>1.5\<close> is \<open>Dec 15 1\<close>, \<^verbatim>\<open>-2.5e-7\<close> is \<open>Dec (- 25) 8\<close>,
  \<^verbatim>\<open>1e21\<close> is \<open>Num (10 ^ 21)\<close>); the number is the double nearest to the literal, so
  two literals may denote the same number. A string is the list of its code units, each
  below 256 (the Latin-1 range, which covers every ASCII body and every header value that
  Node hands out). An object is the list of its own properties in enumeration order, each
  key once, as \<^verbatim>\<open>JSON.parse\<close> builds it.
\<close>

datatype jsval =
    Undefined
  | Null
  | Bool bool
  | Num int
  | Dec int nat
  | Str string
  | Arr "jsval list"
  | Obj "(string \<times> jsval) list"

text \<open>
  Truthiness, as \<^verbatim>\<open>!x\<close>, \<^verbatim>\<open>a || b\<close> and \<^verbatim>\<open>a && b\<close> test it. A number is falsy
  when it is zero: a decimal literal denotes zero when it is at most \<open>1 / 2 ^ 1075\<close> in
  magnitude, half the least double above zero.
\<close>

fun truthy :: "jsval \<Rightarrow> bool" where
  "truthy Undefined = False"
| "truthy Null = False"
| "truthy (Bool b) = b"
| "truthy (Num n) = (n \<noteq> 0)"
| "truthy (Dec i k) = (10 ^ k < \<bar>i\<bar> * 2 ^ 1075)"
| "truthy (Str s) = (s \<noteq> [])"
| "truthy (Arr xs) = True"
| "truthy (Obj kvs) = True"

text \<open>\<^verbatim>\<open>a || b\<close>\<close>

definition js_or :: "jsval \<Rightarrow> jsval \<Rightarrow> jsval" where
  "js_or a b = (if truthy a then a else b)"

fun nullish :: "jsval \<Rightarrow> bool" where
  "nullish Undefined = True"
| "nullish Null = True"
| "nullish _ = False"

text \<open>
  \<^verbatim>\<open>v.k\<close> for a value that is neither \<^verbatim>\<open>undefined\<close> nor \<^verbatim>\<open>null\<close>, and for the
  property names the handler reads (none of them is inherited from a prototype): an
  object gives its own property or \<^verbatim>\<open>undefined\<close>, every other value gives
  \<^verbatim>\<open>undefined\<close>.
\<close>

fun get_prop :: "jsval \<Rightarrow> string \<Rightarrow> jsval" where
  "get_prop (Obj kvs) k = (case map_of kvs k of Some v \<Rightarrow> v | None \<Rightarrow> Undefined)"
| "get_prop _ k = Undefined"

text \<open>\<^verbatim>\<open>v[0]\<close> for a value that is neither \<^verbatim>\<open>undefined\<close> nor \<^verbatim>\<open>null\<close>.\<close>

fun get_index0 :: "jsval \<Rightarrow> jsval" where
  "get_index0 (Arr []) = Undefined"
| "get_index0 (Arr (x # xs)) = x"
| "get_index0 (Str []) = Undefined"
| "get_index0 (Str (c # cs)) = Str [c]"
| "get_index0 (Obj kvs) = (case map_of kvs ''0'' of Some v \<Rightarrow> v | None \<Rightarrow> Undefined)"
| "get_index0 _ = Undefined"

text \<open>Optional chaining: \<^verbatim>\<open>v?.k\<close> and \<^verbatim>\<open>v?.[0]\<close>.\<close>

definition opt_prop :: "jsval \<Rightarrow> string \<Rightarrow> jsval" where
  "opt_prop v k = (if nullish v then Undefined else get_prop v k)"

definition opt_index0 :: "jsval \<Rightarrow> jsval" where
  "opt_index0 v = (if nullish v then Undefined else get_index0 v)"

text \<open>
  A thrown \<^verbatim>\<open>Error\<close> is its message. Reading a property of \<^verbatim>\<open>undefined\<close> or
  \<^verbatim>\<open>null\<close> throws a TypeError with the engine's message.
\<close>

type_synonym error = string

fun type_name :: "jsval \<Rightarrow> string" where
  "type_name Null = ''null''"
| "type_name _ = ''undefined''"

definition cannot_read :: "jsval \<Rightarrow> string \<Rightarrow> error" where
  "cannot_read v k =
     ''Cannot read properties of '' @ type_name v @ '' (reading '' @ [CHR 0x27] @ k @ [CHR 0x27] @ '')''"

section \<open>Normalisation: the three source handlers\<close>

text \<open>
  \<^verbatim>\<open>webhookData\<close> is the object literal each handler builds and hands to
  \<^verbatim>\<open>documentService.processWebhookDocument\<close>.
\<close>

record webhookData =
  source :: jsval
  documentUrl :: jsval
  documentType :: jsval
  metadata :: "(string \<times> jsval) list"

text \<open>
  \<^verbatim>\<open>documentService.processWebhookDocument\<close> downloads, stores and parses the document:
  it is the downstream pipeline, a parameter here. It resolves to a value or rejects with
  an error.
\<close>

type_synonym pipeline = "webhookData \<Rightarrow> error + jsval"

text \<open>
  Every property read in a handler's object literal is a read on \<^verbatim>\<open>data\<close>; the first
  one throws when \<^verbatim>\<open>data\<close> is \<^verbatim>\<open>undefined\<close> or \<^verbatim>\<open>null\<close>, and none throws
  otherwise.
\<close>

definition email_webhookData :: "jsval \<Rightarrow> error + webhookData" where
  "email_webhookData data =
     (if nullish data then Inl (cannot_read data ''attachments'')
      else Inr \<lparr>
        source = Str ''email'',
        documentUrl = opt_prop (opt_index0 (get_prop data ''attachments'')) ''url'',
        documentType = opt_prop (opt_index0 (get_prop data ''attachments'')) ''contentType'',
        metadata = [
          (''filename'', opt_prop (opt_index0 (get_prop data ''attachments'')) ''filename''),
          (''sender'', get_prop data ''sender''),
          (''subject'', get_prop data ''subject''),
          (''receivedAt'', get_prop data ''receivedAt''),
          (''emailId'', get_prop data ''emailId'')] \<rparr>)"

definition scanner_webhookData :: "jsval \<Rightarrow> error + webhookData" where
  "scanner_webhookData data =
     (if nullish data then Inl (cannot_read data ''documentUrl'')
      else Inr \<lparr>
        source = Str ''scanner'',
        documentUrl = get_prop data ''documentUrl'',
        documentType = js_or (get_prop data ''documentType'') (Str ''application/pdf''),
        metadata = [
          (''filename'', get_prop data ''filename''),
          (''scannedBy'', get_prop data ''scannedBy''),
          (''scannedAt'', get_prop data ''scannedAt''),
          (''deviceId'', get_prop data ''deviceId''),
          (''resolution'', get_prop data ''resolution'')] \<rparr>)"

definition external_webhookData :: "jsval \<Rightarrow> error + webhookData" where
  "external_webhookData data =
     (if nullish data then Inl (cannot_read data ''source'')
      else Inr \<lparr>
        source = js_or (get_prop data ''source'') (Str ''external''),
        documentUrl = get_prop data ''documentUrl'',
        documentType = get_prop data ''documentType'',
        metadata = [
          (''filename'', get_prop data ''filename''),
          (''externalId'', get_prop data ''externalId''),
          (''externalSystem'', get_prop data ''externalSystem''),
          (''createdAt'', get_prop data ''createdAt''),
          (''createdBy'', get_prop data ''createdBy''),
          (''additionalData'', get_prop data ''additionalData'')] \<rparr>)"

text \<open>
  The body of each handler is one \<^verbatim>\<open>try\<close>: build the object, await the pipeline;
  whatever is thrown is caught and thrown again with the handler's prefix. The second
  component of the result lists the calls made to the pipeline.
\<close>

definition handleEmailWebhook :: "pipeline \<Rightarrow> jsval \<Rightarrow> (error + jsval) \<times> webhookData list" where
  "handleEmailWebhook processWebhookDocument data =
     (case email_webhookData data of
        Inl m \<Rightarrow> (Inl (''Failed to handle email webhook: '' @ m), [])
      | Inr webhookData \<Rightarrow>
          (case processWebhookDocument webhookData of
             Inl m \<Rightarrow> (Inl (''Failed to handle email webhook: '' @ m), [webhookData])
           | Inr result \<Rightarrow> (Inr result, [webhookData])))"

definition handleScannerWebhook :: "pipeline \<Rightarrow> jsval \<Rightarrow> (error + jsval) \<times> webhookData list" where
  "handleScannerWebhook processWebhookDocument data =
     (case scanner_webhookData data of
        Inl m \<Rightarrow> (Inl (''Failed to handle scanner webhook: '' @ m), [])
      | Inr webhookData \<Rightarrow>
          (case processWebhookDocument webhookData of
             Inl m \<Rightarrow> (Inl (''Failed to handle scanner webhook: '' @ m), [webhookData])
           | Inr result \<Rightarrow> (Inr result, [webhookData])))"

definition handleExternalSystemWebhook :: "pipeline \<Rightarrow> jsval \<Rightarrow> (error + jsval) \<times> webhookData list" where
  "handleExternalSystemWebhook processWebhookDocument data =
     (case external_webhookData data of
        Inl m \<Rightarrow> (Inl (''Failed to handle external system webhook: '' @ m), [])
      | Inr webhookData \<Rightarrow>
          (case processWebhookDocument webhookData of
             Inl m \<Rightarrow> (Inl (''Failed to handle external system webhook: '' @ m), [webhookData])
           | Inr result \<Rightarrow> (Inr result, [webhookData])))"

section \<open>SHA-256 and HMAC\<close>

text \<open>
  \<^verbatim>\<open>crypto.createHmac('sha256', secret)\<close>: HMAC (RFC 2104) over SHA-256 (FIPS 180-4).
  A buffer is a list of bytes, each a \<^typ>\<open>char\<close>; a 32-bit word is a natural number
  below \<open>2 ^ 32\<close>: every addition and every left shift is cut to its low 32 bits.
\<close>

type_synonym buffer = string
type_synonym u32 = nat

definition add32 :: "u32 \<Rightarrow> u32 \<Rightarrow> u32" where
  "add32 a b = (a + b) AND 0xFFFFFFFF"

definition rotr :: "nat \<Rightarrow> u32 \<Rightarrow> u32" where
  "rotr n x = drop_bit n x OR (push_bit (32 - n) x AND 0xFFFFFFFF)"

definition shr :: "nat \<Rightarrow> u32 \<Rightarrow> u32" where
  "shr n x = drop_bit n x"

definition not32 :: "u32 \<Rightarrow> u32" where
  "not32 x = x XOR 0xFFFFFFFF"

definition Ch :: "u32 \<Rightarrow> u32 \<Rightarrow> u32 \<Rightarrow> u32" where
  "Ch x y z = (x AND y) XOR (not32 x AND z)"

definition Maj :: "u32 \<Rightarrow> u32 \<Rightarrow> u32 \<Rightarrow> u32" where
  "Maj x y z = (x AND y) XOR (x AND z) XOR (y AND z)"

definition bsig0 :: "u32 \<Rightarrow> u32" where
  "bsig0 x = rotr 2 x XOR rotr 13 x XOR rotr 22 x"

definition bsig1 :: "u32 \<Rightarrow> u32" where
  "bsig1 x = rotr 6 x XOR rotr 11 x XOR rotr 25 x"

definition ssig0 :: "u32 \<Rightarrow> u32" where
  "ssig0 x = rotr 7 x XOR rotr 18 x XOR shr 3 x"

definition ssig1 :: "u32 \<Rightarrow> u32" where
  "ssig1 x = rotr 17 x XOR rotr 19 x XOR shr 10 x"

definition K256 :: "u32 list" where
  "K256 = [
   1116352408, 1899447441, 3049323471, 3921009573, 961987163, 1508970993, 2453635748, 2870763221,
   3624381080, 310598401, 607225278, 1426881987, 1925078388, 2162078206, 2614888103, 3248222580,
   3835390401, 4022224774, 264347078, 604807628, 770255983, 1249150122, 1555081692, 1996064986,
   2554220882, 2821834349, 2952996808, 3210313671, 3336571891, 3584528711, 113926993, 338241895,
   666307205, 773529912, 1294757372, 1396182291, 1695183700, 1986661051, 2177026350, 2456956037,
   2730485921, 2820302411, 3259730800, 3345764771, 3516065817, 3600352804, 4094571909, 275423344,
   430227734, 506948616, 659060556, 883997877, 958139571, 1322822218, 1537002063, 1747873779,
   1955562222, 2024104815, 2227730452, 2361852424, 2428436474, 2756734187, 3204031479, 3329325298]"

type_synonym hstate = "u32 \<times> u32 \<times> u32 \<times> u32 \<times> u32 \<times> u32 \<times> u32 \<times> u32"

definition H256 :: hstate where
  "H256 = (1779033703, 3144134277, 1013904242, 2773480762,
           1359893119, 2600822924, 528734635, 1541459225)"

definition byte :: "char \<Rightarrow> nat" where
  "byte c = of_char c"

text \<open>Big-endian words of a block, and back.\<close>

fun be_words :: "buffer \<Rightarrow> u32 list" where
  "be_words (a # b # c # d # rest) =
     (((byte a * 256 + byte b) * 256 + byte c) * 256 + byte d) # be_words rest"
| "be_words _ = []"

definition be_bytes :: "u32 \<Rightarrow> buffer" where
  "be_bytes w = [char_of (w div 16777216), char_of (w div 65536), char_of (w div 256), char_of w]"

definition len_bytes :: "nat \<Rightarrow> buffer" where
  "len_bytes n = be_bytes (n div 4294967296 mod 4294967296) @ be_bytes (n mod 4294967296)"

text \<open>Padding: a one bit, zeros up to 56 modulo 64, the length in bits on eight bytes.\<close>

definition sha_pad :: "buffer \<Rightarrow> buffer" where
  "sha_pad m = m @ [CHR 0x80] @ replicate ((119 - length m mod 64) mod 64) (CHR 0x00)
                 @ len_bytes (8 * length m)"

text \<open>The message schedule, most recent word first: \<open>ws ! 1\<close> is \<open>W[t - 2]\<close>.\<close>

fun schedule :: "nat \<Rightarrow> u32 list \<Rightarrow> u32 list" where
  "schedule 0 ws = ws"
| "schedule (Suc n) ws =
     schedule n (add32 (add32 (add32 (ssig1 (ws ! 1)) (ws ! 6)) (ssig0 (ws ! 14))) (ws ! 15) # ws)"

definition T1 :: "u32 \<Rightarrow> u32 \<Rightarrow> u32 \<Rightarrow> u32 \<Rightarrow> u32 \<Rightarrow> u32 \<Rightarrow> u32" where
  "T1 e f g h k w = add32 (add32 (add32 (add32 h (bsig1 e)) (Ch e f g)) k) w"

definition T2 :: "u32 \<Rightarrow> u32 \<Rightarrow> u32 \<Rightarrow> u32" where
  "T2 a b c = add32 (bsig0 a) (Maj a b c)"

fun round_step :: "u32 \<Rightarrow> u32 \<Rightarrow> hstate \<Rightarrow> hstate" where
  "round_step t1 t2 (a, b, c, d, e, f, g, h) = (add32 t1 t2, a, b, c, add32 d t1, e, f, g)"

fun round256 :: "hstate \<Rightarrow> (u32 \<times> u32) \<Rightarrow> hstate" where
  "round256 (a, b, c, d, e, f, g, h) (k, w) =
     round_step (T1 e f g h k w) (T2 a b c) (a, b, c, d, e, f, g, h)"

fun add_state :: "hstate \<Rightarrow> hstate \<Rightarrow> hstate" where
  "add_state (a, b, c, d, e, f, g, h) (a', b', c', d', e', f', g', h') =
     (add32 a a', add32 b b', add32 c c', add32 d d',
      add32 e e', add32 f f', add32 g g', add32 h h')"

definition compress :: "hstate \<Rightarrow> buffer \<Rightarrow> hstate" where
  "compress hs block =
     add_state hs (foldl round256 hs (zip K256 (rev (schedule 48 (rev (be_words block))))))"

function sha_blocks :: "hstate \<Rightarrow> buffer \<Rightarrow> hstate" where
  "sha_blocks hs bs =
     (if length bs < 64 then hs else sha_blocks (compress hs (take 64 bs)) (drop 64 bs))"
  by pat_completeness auto
termination
  by (relation "measure (\<lambda>(hs, bs). length bs)") auto

declare sha_blocks.simps [simp del]

fun state_bytes :: "hstate \<Rightarrow> buffer" where
  "state_bytes (a, b, c, d, e, f, g, h) =
     be_bytes a @ be_bytes b @ be_bytes c @ be_bytes d @
     be_bytes e @ be_bytes f @ be_bytes g @ be_bytes h"

definition sha256 :: "buffer \<Rightarrow> buffer" where
  "sha256 m = state_bytes (sha_blocks H256 (sha_pad m))"

definition xor_byte :: "nat \<Rightarrow> char \<Rightarrow> char" where
  "xor_byte k c = char_of (byte c XOR k)"

text \<open>The key of the HMAC: hashed when longer than a block, then filled with zeros.\<close>

definition hmac_key :: "buffer \<Rightarrow> buffer" where
  "hmac_key key =
     (if length key > 64 then sha256 key else key)
       @ replicate (64 - length (if length key > 64 then sha256 key else key)) (CHR 0x00)"

definition hmac_sha256 :: "buffer \<Rightarrow> buffer \<Rightarrow> buffer" where
  "hmac_sha256 key msg =
     sha256 (map (xor_byte 0x5c) (hmac_key key)
               @ sha256 (map (xor_byte 0x36) (hmac_key key) @ msg))"

text \<open>\<^verbatim>\<open>hmac.digest('hex')\<close>: two lowercase hexadecimal digits for each byte.\<close>

definition hexdigit :: "nat \<Rightarrow> char" where
  "hexdigit n = (''0123456789abcdef'' ! n)"

fun hex :: "buffer \<Rightarrow> string" where
  "hex [] = []"
| "hex (c # cs) = hexdigit (byte c div 16) # hexdigit (byte c mod 16) # hex cs"

text \<open>
  \<^verbatim>\<open>Buffer.from(s)\<close> and \<^verbatim>\<open>hmac.update(s)\<close> take the UTF-8 encoding of a string: one
  byte for a code unit below 128, two bytes for one from 128 to 255.
\<close>

fun Buffer_from :: "string \<Rightarrow> buffer" where
  "Buffer_from [] = []"
| "Buffer_from (c # cs) =
     (if byte c < 128 then c # Buffer_from cs
      else char_of (192 + byte c div 64) # char_of (128 + byte c mod 64) # Buffer_from cs)"

text \<open>
  \<^verbatim>\<open>crypto.timingSafeEqual(a, b)\<close> throws a RangeError when the two buffers differ in
  byte length; otherwise it folds the difference of every pair of bytes into one
  accumulator, with no exit before the end, and answers whether the accumulator is zero.
  The running time of a comparison is a matter of how many pairs of bytes it examines, so
  the model keeps that count: it is the second component of \<open>ct_compare\<close> and of
  \<open>timingSafeEqual\<close>.
\<close>

fun ct_compare :: "buffer \<Rightarrow> buffer \<Rightarrow> nat \<times> nat \<Rightarrow> nat \<times> nat" where
  "ct_compare (x # xs) (y # ys) (acc, n) = ct_compare xs ys (acc OR (byte x XOR byte y), Suc n)"
| "ct_compare _ _ s = s"

definition timingSafeEqual :: "buffer \<Rightarrow> buffer \<Rightarrow> (error + bool) \<times> nat" where
  "timingSafeEqual a b =
     (if length a \<noteq> length b then (Inl ''Input buffers must have the same byte length'', 0)
      else (Inr (fst (ct_compare a b (0, 0)) = 0), snd (ct_compare a b (0, 0))))"

section \<open>JSON.stringify\<close>

text \<open>
  The decimal text of a natural number; the ten decimal digits are the first ten
  hexadecimal digits.
\<close>

function show_nat :: "nat \<Rightarrow> string" where
  "show_nat n = (if n < 10 then [hexdigit n] else show_nat (n div 10) @ [hexdigit (n mod 10)])"
  by pat_completeness auto
termination
  by (relation "measure id") auto

declare show_nat.simps [simp del]

text \<open>
  A JavaScript number is a double: zero, \<open>m * 2 ^ e\<close> or its negative with
  \<open>2 ^ 52 \<le> m < 2 ^ 53\<close> and \<open>- 1074 \<le> e \<le> 971\<close>, below \<open>2 ^ 52\<close> only for
  \<open>e = - 1074\<close>, or an infinity. \<open>nearest_double n k\<close> is the double \<open>(m, e)\<close> that the
  literal \<open>n / 10 ^ k\<close> denotes: the nearest one, of two equally near the one with the
  even \<open>m\<close>, and Infinity (\<open>None\<close>) from \<open>2 ^ 1024 - 2 ^ 970\<close> on. \<open>reaches n k l\<close> says
  that the literal is at least \<open>2 ^ l\<close>.
\<close>

function bit_length :: "nat \<Rightarrow> nat" where
  "bit_length n = (if n = 0 then 0 else Suc (bit_length (n div 2)))"
  by pat_completeness auto
termination
  by (relation "measure id") auto

declare bit_length.simps [simp del]

definition reaches :: "nat \<Rightarrow> nat \<Rightarrow> int \<Rightarrow> bool" where
  "reaches n k l = (10 ^ k * 2 ^ nat l \<le> n * 2 ^ nat (- l))"

definition nearest_double :: "nat \<Rightarrow> nat \<Rightarrow> (nat \<times> int) option" where
  "nearest_double n k =
     (let l0 = int (bit_length n) - int (bit_length (10 ^ k));
          l = (if reaches n k l0 then l0 else l0 - 1);
          e = max (- 1074) (l - 52);
          num = n * 2 ^ nat (- e);
          den = 10 ^ k * 2 ^ nat e;
          q = num div den;
          r = num mod den;
          m = (if den < 2 * r \<or> (den = 2 * r \<and> odd q) then q + 1 else q)
      in if 1024 < int (bit_length m) + e then None
         else if m = 2 ^ 53 then Some (2 ^ 52, e + 1)
         else Some (m, e))"

text \<open>
  The digits of a double \<open>m * 2 ^ e\<close> are found among natural numbers:
  \<open>scaled m e\<close> is the double times \<open>10 ^ (- e)\<close> when \<open>e\<close> is negative, and the double
  itself otherwise. \<open>rounds_to m e x\<close>: the number \<open>x\<close>, on the same scale, lies in the
  rounding interval of the double. The interval reaches half a gap on each side (the gap
  below a power of two is half the gap above it) and has its ends when \<open>m\<close> is even.
\<close>

definition scaled :: "nat \<Rightarrow> int \<Rightarrow> nat" where
  "scaled m e = m * (2 ^ nat e * 5 ^ nat (- e))"

definition rounds_to :: "nat \<Rightarrow> int \<Rightarrow> nat \<Rightarrow> bool" where
  "rounds_to m e x =
     (let above = 2 * scaled 1 e;
          below = (if m = 2 ^ 52 \<and> - 1074 < e then scaled 1 e else 2 * scaled 1 e)
      in if even m
         then 4 * scaled m e \<le> 4 * x + below \<and> 4 * x \<le> 4 * scaled m e + above
         else 4 * scaled m e < 4 * x + below \<and> 4 * x < 4 * scaled m e + above)"

text \<open>
  \<^verbatim>\<open>Number::toString\<close> writes the shortest digits that round to the number. Of the two
  multiples of \<open>10 ^ p\<close> around the scaled double, \<open>candidate m e p\<close> is the one nearer
  to it among those that round to the double (of two equally near, the one with the even
  digits), and \<open>shortest m e p\<close> takes the candidate of the largest power of ten not
  above \<open>10 ^ p\<close>.
\<close>

definition candidate :: "nat \<Rightarrow> int \<Rightarrow> nat \<Rightarrow> nat option" where
  "candidate m e p =
     (let d = scaled m e;
          lo = d div 10 ^ p * 10 ^ p;
          hi = lo + 10 ^ p
      in if rounds_to m e lo \<and> 0 < lo
         then (if rounds_to m e hi \<and> (hi - d < d - lo \<or> (hi - d = d - lo \<and> odd (d div 10 ^ p)))
               then Some hi else Some lo)
         else if rounds_to m e hi then Some hi
         else None)"

fun shortest :: "nat \<Rightarrow> int \<Rightarrow> nat \<Rightarrow> nat \<times> nat" where
  "shortest m e 0 = (scaled m e, 0)"
| "shortest m e (Suc p) =
     (case candidate m e (Suc p) of Some c \<Rightarrow> (c, Suc p) | None \<Rightarrow> shortest m e p)"

text \<open>
  The text of a double above zero. With \<open>k\<close> digits and the decimal point \<open>n\<close> places
  after the first of them: the digits and the zeros after them when \<open>k \<le> n \<le> 21\<close>; the
  digits with the point among them when \<open>0 < n \<le> 21\<close>; \<^verbatim>\<open>0.\<close>, zeros and the digits
  when \<open>- 6 < n \<le> 0\<close>; the exponent notation otherwise.
\<close>

definition show_double :: "nat \<Rightarrow> int \<Rightarrow> string" where
  "show_double m e =
     (case shortest m e (length (show_nat (scaled m e))) of (c, p) \<Rightarrow>
        let digits = show_nat (c div 10 ^ p);
            k = int (length digits);
            n = int (length (show_nat c)) - int (nat (- e))
        in if k \<le> n \<and> n \<le> 21 then digits @ replicate (nat (n - k)) CHR ''0''
           else if 0 < n \<and> n \<le> 21 then take (nat n) digits @ CHR ''.'' # drop (nat n) digits
           else if - 6 < n \<and> n \<le> 0 then ''0.'' @ replicate (nat (- n)) CHR ''0'' @ digits
           else (if k = 1 then digits else take 1 digits @ CHR ''.'' # drop 1 digits)
                @ CHR ''e'' # (if 0 < n then CHR ''+'' else CHR ''-'') # show_nat (nat \<bar>n - 1\<bar>))"

text \<open>
  The text \<^verbatim>\<open>JSON.stringify\<close> writes for the number that the literal
  \<open>i / 10 ^ k\<close> denotes. An integer below \<open>2 ^ 53\<close> in magnitude is a double and its
  own decimal digits are its text; an infinity is written \<^verbatim>\<open>null\<close>, and zero \<^verbatim>\<open>0\<close>
  whatever its sign.
\<close>

definition Number_text :: "int \<Rightarrow> nat \<Rightarrow> string" where
  "Number_text i k =
     (if k = 0 \<and> \<bar>i\<bar> < 9007199254740992
      then (if i < 0 then CHR ''-'' # show_nat (nat (- i)) else show_nat (nat i))
      else (case nearest_double (nat \<bar>i\<bar>) k of
              None \<Rightarrow> ''null''
            | Some (m, e) \<Rightarrow>
                if m = 0 then ''0''
                else if i < 0 then CHR ''-'' # show_double m e
                else show_double m e))"

text \<open>
  A string between double quotes: the quote and the backslash escaped, the control
  characters as their short escape or as \<^verbatim>\<open>\u00XX\<close>, every other code unit as it is.
\<close>

definition esc_char :: "char \<Rightarrow> string" where
  "esc_char c =
     (if c = CHR 0x22 then [CHR 0x5C, CHR 0x22]
      else if c = CHR 0x5C then [CHR 0x5C, CHR 0x5C]
      else if c = CHR 0x08 then [CHR 0x5C, CHR ''b'']
      else if c = CHR 0x0C then [CHR 0x5C, CHR ''f'']
      else if c = CHR 0x0A then [CHR 0x5C, CHR ''n'']
      else if c = CHR 0x0D then [CHR 0x5C, CHR ''r'']
      else if c = CHR 0x09 then [CHR 0x5C, CHR ''t'']
      else if byte c < 32 then
        [CHR 0x5C, CHR ''u'', CHR ''0'', CHR ''0'', hexdigit (byte c div 16), hexdigit (byte c mod 16)]
      else [c])"

definition JSON_quote :: "string \<Rightarrow> string" where
  "JSON_quote s = CHR 0x22 # concat (map esc_char s) @ [CHR 0x22]"

fun join_comma :: "string list \<Rightarrow> string" where
  "join_comma [] = []"
| "join_comma [x] = x"
| "join_comma (x # y # ys) = x @ CHR '','' # join_comma (y # ys)"

text \<open>
  The text of a value: no white space, the properties of an object in their enumeration
  order, a property whose value is \<^verbatim>\<open>undefined\<close> left out, an \<^verbatim>\<open>undefined\<close> element
  of an array written \<^verbatim>\<open>null\<close>.
\<close>

fun JSON_text :: "jsval \<Rightarrow> string"
  and JSON_elements :: "jsval list \<Rightarrow> string list"
  and JSON_members :: "(string \<times> jsval) list \<Rightarrow> string list" where
  "JSON_text Undefined = ''null''"
| "JSON_text Null = ''null''"
| "JSON_text (Bool b) = (if b then ''true'' else ''false'')"
| "JSON_text (Num i) = Number_text i 0"
| "JSON_text (Dec i k) = Number_text i k"
| "JSON_text (Str s) = JSON_quote s"
| "JSON_text (Arr xs) = CHR ''['' # join_comma (JSON_elements xs) @ '']''"
| "JSON_text (Obj kvs) = CHR ''{'' # join_comma (JSON_members kvs) @ ''}''"
| "JSON_elements [] = []"
| "JSON_elements (x # xs) = JSON_text x # JSON_elements xs"
| "JSON_members [] = []"
| "JSON_members ((k, v) # kvs) =
     (if v = Undefined then JSON_members kvs
      else (JSON_quote k @ CHR '':'' # JSON_text v) # JSON_members kvs)"

text \<open>\<^verbatim>\<open>JSON.stringify(v)\<close> is \<^verbatim>\<open>undefined\<close>, not a string, when \<^verbatim>\<open>v\<close> is.\<close>

definition JSON_stringify :: "jsval \<Rightarrow> string option" where
  "JSON_stringify v = (if v = Undefined then None else Some (JSON_text v))"

section \<open>The request, the response and the signature\<close>

text \<open>
  What the handler reads of the Express request: the \<^verbatim>\<open>:type\<close> segment of the path,
  the headers (names in lower case), the text \<^verbatim>\<open>req.rawBody\<close> and the parsed
  \<^verbatim>\<open>req.body\<close>.
\<close>

record request =
  params_type :: string
  headers :: "string \<Rightarrow> string option"
  rawBody :: string
  body :: jsval

record response =
  status :: nat
  payload :: jsval

definition error_response :: "string \<Rightarrow> nat \<Rightarrow> response" where
  "error_response message code =
     \<lparr> status = code,
       payload = Obj [(''error'', Obj [(''message'', Str message), (''status'', Num (int code))])] \<rparr>"

text \<open>
  \<^verbatim>\<open>verifySignature(req, secret)\<close>. The digest is the HMAC, keyed with the secret, of
  the text given to \<^verbatim>\<open>hmac.update\<close>, in hexadecimal; the text is
  \<^verbatim>\<open>JSON.stringify(req.body)\<close>. Inside the \<^verbatim>\<open>try\<close>: no signature header (or an
  empty one) is \<^verbatim>\<open>false\<close>; \<^verbatim>\<open>hmac.update\<close> throws on \<^verbatim>\<open>undefined\<close>, the result of
  serialising an \<^verbatim>\<open>undefined\<close> body; \<^verbatim>\<open>timingSafeEqual\<close> throws on buffers of
  different length. The \<^verbatim>\<open>catch\<close> turns every throw into \<^verbatim>\<open>false\<close>.
  \<open>verifySignature_cost\<close> is the function with, beside its answer, the number of pairs
  of bytes of digest and signature that the call has compared; \<open>verifySignature\<close> is
  its answer.
\<close>

definition digest :: "string \<Rightarrow> string \<Rightarrow> string" where
  "digest secret text = hex (hmac_sha256 (Buffer_from secret) (Buffer_from text))"

definition verifySignature_cost :: "request \<Rightarrow> string \<Rightarrow> bool \<times> nat" where
  "verifySignature_cost req secret =
     (case headers req ''x-webhook-signature'' of
        None \<Rightarrow> (False, 0)
      | Some signature \<Rightarrow>
          if signature = [] then (False, 0)
          else (case JSON_stringify (body req) of
                  None \<Rightarrow> (False, 0)
                | Some text \<Rightarrow>
                    (case timingSafeEqual (Buffer_from (digest secret text))
                            (Buffer_from signature) of
                       (Inl m, examined) \<Rightarrow> (False, examined)
                     | (Inr equal, examined) \<Rightarrow> (equal, examined))))"

definition verifySignature :: "request \<Rightarrow> string \<Rightarrow> bool" where
  "verifySignature req secret = fst (verifySignature_cost req secret)"

section \<open>The handler\<close>

text \<open>
  \<^verbatim>\<open>config.webhooks?.[webhookType]?.secret\<close>: the configuration file of the repository
  has no \<^verbatim>\<open>webhooks\<close> section, so the table of secrets is a parameter. A secret that
  is the empty string is falsy, as a missing one is.
\<close>

type_synonym secrets = "string \<Rightarrow> string option"

definition signature_rejected :: "secrets \<Rightarrow> request \<Rightarrow> bool" where
  "signature_rejected webhooks req =
     (case webhooks (params_type req) of
        None \<Rightarrow> False
      | Some webhookSecret \<Rightarrow> webhookSecret \<noteq> [] \<and> \<not> verifySignature req webhookSecret)"

text \<open>
  \<^verbatim>\<open>res.json(result)\<close> after a handler that resolved; the \<^verbatim>\<open>catch\<close> of
  \<^verbatim>\<open>processWebhook\<close> after one that threw.
\<close>

fun respond :: "(error + jsval) \<times> webhookData list \<Rightarrow> response \<times> webhookData list" where
  "respond (Inr result, calls) = (\<lparr> status = 200, payload = result \<rparr>, calls)"
| "respond (Inl message, calls) = (error_response message 500, calls)"

definition processWebhook :: "secrets \<Rightarrow> pipeline \<Rightarrow> request \<Rightarrow> response \<times> webhookData list" where
  "processWebhook webhooks processWebhookDocument req =
     (if signature_rejected webhooks req
      then (error_response ''Invalid webhook signature'' 401, [])
      else if params_type req = ''email''
        then respond (handleEmailWebhook processWebhookDocument (body req))
      else if params_type req = ''scanner''
        then respond (handleScannerWebhook processWebhookDocument (body req))
      else if params_type req = ''external''
        then respond (handleExternalSystemWebhook processWebhookDocument (body req))
      else (error_response (''Unsupported webhook type: '' @ params_type req) 400, []))"

section \<open>The route\<close>

text \<open>
  \<^verbatim>\<open>rawBodyParser\<close> appends the chunks of the request in the order they arrive.
  The route then parses the text when the content type is exactly
  \<^verbatim>\<open>application/json\<close>; a \<^verbatim>\<open>SyntaxError\<close> of \<^verbatim>\<open>JSON.parse\<close> goes to the route's own
  \<^verbatim>\<open>catch\<close>. \<^verbatim>\<open>JSON.parse\<close> is a parameter. This is the router of
  \<^verbatim>\<open>webhookRoutes.js\<close> as it is written; the middleware that the application installs
  in front of every router is not part of it.
\<close>

definition rawBodyParser :: "string list \<Rightarrow> request \<Rightarrow> request" where
  "rawBodyParser chunks req = req \<lparr> rawBody := foldl (@) [] chunks \<rparr>"

definition webhookRoute :: "(string \<Rightarrow> error + jsval) \<Rightarrow> secrets \<Rightarrow> pipeline \<Rightarrow> string list
    \<Rightarrow> request \<Rightarrow> response \<times> webhookData list" where
  "webhookRoute JSON_parse webhooks processWebhookDocument chunks req =
     (if headers (rawBodyParser chunks req) ''content-type'' = Some ''application/json''
      then (case JSON_parse (rawBody (rawBodyParser chunks req)) of
              Inl message \<Rightarrow> (error_response message 500, [])
            | Inr parsed \<Rightarrow>
                processWebhook webhooks processWebhookDocument
                  (rawBodyParser chunks req \<lparr> body := parsed \<rparr>))
      else processWebhook webhooks processWebhookDocument (rawBodyParser chunks req))"

text \<open>
  The outcomes of one request, for the handler and for the route: the response, and the
  calls made to the pipeline. Either the pipeline was called once and resolved, and the
  response is its result; or it was called once and rejected, and the response is a 500
  with its message behind the handler's prefix; or it was not called, and the response is
  a 500, the 401 of the signature or the 400 of the unknown type.
\<close>

abbreviation outcome_ok :: "pipeline \<Rightarrow> string \<Rightarrow> response \<times> webhookData list \<Rightarrow> bool" where
  "outcome_ok pw t out \<equiv>
     (\<exists>wd result. out = (\<lparr> status = 200, payload = result \<rparr>, [wd]) \<and> pw wd = Inr result)
   \<or> (\<exists>wd e p. out = (error_response (p @ e) 500, [wd]) \<and> pw wd = Inl e)
   \<or> (\<exists>m. out = (error_response m 500, []))
   \<or> out = (error_response ''Invalid webhook signature'' 401, [])
   \<or> out = (error_response (''Unsupported webhook type: '' @ t) 400, [])"

section \<open>Properties of the normalisation\<close>

lemma verifySignature_unfold:
  "verifySignature req secret =
     (case headers req ''x-webhook-signature'' of
        None \<Rightarrow> False
      | Some signature \<Rightarrow>
          if signature = [] then False
          else (case JSON_stringify (body req) of
                  None \<Rightarrow> False
                | Some serialized \<Rightarrow>
                    (case fst (timingSafeEqual (Buffer_from (digest secret serialized))
                            (Buffer_from signature)) of
                       Inl m \<Rightarrow> False
                     | Inr equal \<Rightarrow> equal)))"
  by (simp add: verifySignature_def verifySignature_cost_def
      split: option.split sum.split prod.split)

lemma handleEmailWebhook_calls:
  "email_webhookData data = Inr wd \<Longrightarrow> snd (handleEmailWebhook pw data) = [wd]"
  by (simp add: handleEmailWebhook_def split: sum.split)

lemma handleScannerWebhook_calls:
  "scanner_webhookData data = Inr wd \<Longrightarrow> snd (handleScannerWebhook pw data) = [wd]"
  by (simp add: handleScannerWebhook_def split: sum.split)

lemma handleExternalSystemWebhook_calls:
  "external_webhookData data = Inr wd \<Longrightarrow> snd (handleExternalSystemWebhook pw data) = [wd]"
  by (simp add: handleExternalSystemWebhook_def split: sum.split)

text \<open>
  C6. An email body that is an object with \<^verbatim>\<open>sender\<close>, \<^verbatim>\<open>subject\<close>,
  \<^verbatim>\<open>receivedAt\<close>, \<^verbatim>\<open>emailId\<close> and an \<^verbatim>\<open>attachments\<close> array with a first element
  \<open>a\<close>: the handler passes exactly one event to the pipeline; its \<^verbatim>\<open>documentUrl\<close>,
  \<^verbatim>\<open>documentType\<close> and \<^verbatim>\<open>metadata.filename\<close> are \<^verbatim>\<open>a?.url\<close>,
  \<^verbatim>\<open>a?.contentType\<close> and \<^verbatim>\<open>a?.filename\<close>, and the metadata carries the four values of
  the body.
\<close>

theorem email_normalisation:
  assumes "map_of kvs ''attachments'' = Some (Arr (a # rest))"
    and "map_of kvs ''sender'' = Some sender"
    and "map_of kvs ''subject'' = Some subject"
    and "map_of kvs ''receivedAt'' = Some receivedAt"
    and "map_of kvs ''emailId'' = Some emailId"
  shows "snd (handleEmailWebhook processWebhookDocument (Obj kvs)) =
    [\<lparr> source = Str ''email'',
       documentUrl = opt_prop a ''url'',
       documentType = opt_prop a ''contentType'',
       metadata = [(''filename'', opt_prop a ''filename''), (''sender'', sender),
                   (''subject'', subject), (''receivedAt'', receivedAt), (''emailId'', emailId)] \<rparr>]"
proof -
  have "opt_index0 (get_prop (Obj kvs) ''attachments'') = a"
    using assms(1) by (simp add: opt_index0_def)
  then have "email_webhookData (Obj kvs) = Inr \<lparr> source = Str ''email'',
       documentUrl = opt_prop a ''url'',
       documentType = opt_prop a ''contentType'',
       metadata = [(''filename'', opt_prop a ''filename''), (''sender'', sender),
                   (''subject'', subject), (''receivedAt'', receivedAt), (''emailId'', emailId)] \<rparr>"
    using assms(2-5) by (simp add: email_webhookData_def)
  then show ?thesis by (rule handleEmailWebhook_calls)
qed

text \<open>The input of the specification, with a pipeline that resolves to \<^verbatim>\<open>null\<close>.\<close>

theorem email_normalisation_witness:
  "snd (handleEmailWebhook (\<lambda>wd. Inr Null)
     (Obj [(''sender'', Str ''a@b.com''), (''subject'', Str ''Re: case''),
           (''receivedAt'', Str ''2025-01-01T00:00:00Z''), (''emailId'', Str ''E1''),
           (''attachments'', Arr [Obj [(''url'', Str ''http://x/f.pdf''), (''filename'', Str ''f.pdf''),
                                      (''contentType'', Str ''application/pdf'')]])])) =
    [\<lparr> source = Str ''email'',
       documentUrl = Str ''http://x/f.pdf'',
       documentType = Str ''application/pdf'',
       metadata = [(''filename'', Str ''f.pdf''), (''sender'', Str ''a@b.com''),
                   (''subject'', Str ''Re: case''), (''receivedAt'', Str ''2025-01-01T00:00:00Z''),
                   (''emailId'', Str ''E1'')] \<rparr>]"
  using email_normalisation [of
      "[(''sender'', Str ''a@b.com''), (''subject'', Str ''Re: case''),
        (''receivedAt'', Str ''2025-01-01T00:00:00Z''), (''emailId'', Str ''E1''),
        (''attachments'', Arr [Obj [(''url'', Str ''http://x/f.pdf''), (''filename'', Str ''f.pdf''),
                                   (''contentType'', Str ''application/pdf'')]])]"
      "Obj [(''url'', Str ''http://x/f.pdf''), (''filename'', Str ''f.pdf''),
            (''contentType'', Str ''application/pdf'')]"
      "[]" "Str ''a@b.com''" "Str ''Re: case''" "Str ''2025-01-01T00:00:00Z''" "Str ''E1''"
      "\<lambda>wd. Inr Null"]
  by (simp add: opt_prop_def)

text \<open>
  C7. An email body (any value but \<^verbatim>\<open>undefined\<close> and \<^verbatim>\<open>null\<close>) whose
  \<^verbatim>\<open>attachments\<close> is absent, \<^verbatim>\<open>null\<close> or the empty array: nothing is thrown while the
  event is built, the pipeline is called once with it, its \<^verbatim>\<open>documentUrl\<close> and
  \<^verbatim>\<open>documentType\<close> are \<^verbatim>\<open>undefined\<close>, and the handler resolves to what the pipeline
  resolves to.
\<close>

theorem email_without_attachments:
  assumes "\<not> nullish data"
    and "get_prop data ''attachments'' = Undefined \<or> get_prop data ''attachments'' = Null
         \<or> get_prop data ''attachments'' = Arr []"
  shows "snd (handleEmailWebhook processWebhookDocument data) =
      [\<lparr> source = Str ''email'', documentUrl = Undefined, documentType = Undefined,
         metadata = [(''filename'', Undefined), (''sender'', get_prop data ''sender''),
                     (''subject'', get_prop data ''subject''),
                     (''receivedAt'', get_prop data ''receivedAt''),
                     (''emailId'', get_prop data ''emailId'')] \<rparr>]
    \<and> (\<forall>result.
          processWebhookDocument
            \<lparr> source = Str ''email'', documentUrl = Undefined, documentType = Undefined,
              metadata = [(''filename'', Undefined), (''sender'', get_prop data ''sender''),
                          (''subject'', get_prop data ''subject''),
                          (''receivedAt'', get_prop data ''receivedAt''),
                          (''emailId'', get_prop data ''emailId'')] \<rparr> = Inr result
          \<longrightarrow> fst (handleEmailWebhook processWebhookDocument data) = Inr result)"
proof -
  have "opt_index0 (get_prop data ''attachments'') = Undefined"
    using assms(2) by (auto simp: opt_index0_def)
  then have "email_webhookData data =
      Inr \<lparr> source = Str ''email'', documentUrl = Undefined, documentType = Undefined,
         metadata = [(''filename'', Undefined), (''sender'', get_prop data ''sender''),
                     (''subject'', get_prop data ''subject''),
                     (''receivedAt'', get_prop data ''receivedAt''),
                     (''emailId'', get_prop data ''emailId'')] \<rparr>"
    using assms(1) by (simp add: email_webhookData_def opt_prop_def)
  then show ?thesis
    by (simp add: handleEmailWebhook_def split: sum.split)
qed

theorem email_without_attachments_witness:
  "handleEmailWebhook (\<lambda>wd. Inr (Str ''stored''))
     (Obj [(''sender'', Str ''a@b.com''), (''emailId'', Str ''E1''), (''attachments'', Arr [])]) =
    (Inr (Str ''stored''),
     [\<lparr> source = Str ''email'', documentUrl = Undefined, documentType = Undefined,
        metadata = [(''filename'', Undefined), (''sender'', Str ''a@b.com''),
                    (''subject'', Undefined), (''receivedAt'', Undefined),
                    (''emailId'', Str ''E1'')] \<rparr>])"
  using email_without_attachments [of
      "Obj [(''sender'', Str ''a@b.com''), (''emailId'', Str ''E1''), (''attachments'', Arr [])]"
      "\<lambda>wd. Inr (Str ''stored'')"]
  by (simp add: prod_eq_iff)

text \<open>
  C8, as stated, fails: a scanner body whose \<^verbatim>\<open>documentType\<close> is present and is the
  empty string gets the default, since \<^verbatim>\<open>||\<close> tests truthiness and not presence.
\<close>

theorem scanner_documentType_counterexample:
  "get_prop (Obj [(''documentUrl'', Str ''http://x/s.png''), (''filename'', Str ''s.png''),
                  (''documentType'', Str '''')]) ''documentType'' = Str ''''
   \<and> scanner_webhookData
        (Obj [(''documentUrl'', Str ''http://x/s.png''), (''filename'', Str ''s.png''),
              (''documentType'', Str '''')]) =
      Inr \<lparr> source = Str ''scanner'', documentUrl = Str ''http://x/s.png'',
            documentType = Str ''application/pdf'',
            metadata = [(''filename'', Str ''s.png''), (''scannedBy'', Undefined),
                        (''scannedAt'', Undefined), (''deviceId'', Undefined),
                        (''resolution'', Undefined)] \<rparr>"
  by (simp add: scanner_webhookData_def js_or_def)

text \<open>
  C8, amended. A scanner body (any value but \<^verbatim>\<open>undefined\<close> and \<^verbatim>\<open>null\<close>): the
  event's \<^verbatim>\<open>documentType\<close> is the body's when that is truthy, and
  \<^verbatim>\<open>application/pdf\<close> when it is absent or falsy (the empty string, \<^verbatim>\<open>null\<close>,
  \<^verbatim>\<open>false\<close>, \<^verbatim>\<open>0\<close>).
\<close>

theorem scanner_documentType:
  assumes "\<not> nullish data"
  shows "map documentType (snd (handleScannerWebhook processWebhookDocument data)) =
     [if truthy (get_prop data ''documentType'') then get_prop data ''documentType''
      else Str ''application/pdf'']"
  using assms
  by (simp add: handleScannerWebhook_def scanner_webhookData_def js_or_def split: sum.split)

theorem scanner_documentType_witness:
  "map documentType (snd (handleScannerWebhook (\<lambda>wd. Inr Null)
      (Obj [(''documentUrl'', Str ''http://x/s.png''), (''filename'', Str ''s.png''),
            (''scannedBy'', Str ''u1''), (''scannedAt'', Str ''t''), (''deviceId'', Str ''d1'')]))) =
     [Str ''application/pdf'']
   \<and> map documentType (snd (handleScannerWebhook (\<lambda>wd. Inr Null)
      (Obj [(''documentUrl'', Str ''http://x/s.png''), (''documentType'', Str ''image/png'')]))) =
     [Str ''image/png'']"
  using scanner_documentType [of
      "Obj [(''documentUrl'', Str ''http://x/s.png''), (''filename'', Str ''s.png''),
            (''scannedBy'', Str ''u1''), (''scannedAt'', Str ''t''), (''deviceId'', Str ''d1'')]"
      "\<lambda>wd. Inr Null"]
    scanner_documentType [of
      "Obj [(''documentUrl'', Str ''http://x/s.png''), (''documentType'', Str ''image/png'')]"
      "\<lambda>wd. Inr Null"]
  by simp

text \<open>
  C9, as stated, fails on the source: an external body with no \<^verbatim>\<open>source\<close>, or with the
  empty string as its \<^verbatim>\<open>source\<close>, gets the source \<^verbatim>\<open>external\<close>.
\<close>

theorem external_source_counterexample:
  "get_prop (Obj [(''documentUrl'', Str ''http://x/d.pdf''), (''externalId'', Str ''X1''),
                  (''externalSystem'', Str ''crm'')]) ''source'' = Undefined
   \<and> external_webhookData
        (Obj [(''documentUrl'', Str ''http://x/d.pdf''), (''externalId'', Str ''X1''),
              (''externalSystem'', Str ''crm'')]) =
      Inr \<lparr> source = Str ''external'', documentUrl = Str ''http://x/d.pdf'',
            documentType = Undefined,
            metadata = [(''filename'', Undefined), (''externalId'', Str ''X1''),
                        (''externalSystem'', Str ''crm''), (''createdAt'', Undefined),
                        (''createdBy'', Undefined), (''additionalData'', Undefined)] \<rparr>
   \<and> map_sum id source
        (external_webhookData (Obj [(''source'', Str ''''), (''documentUrl'', Str ''http://x/d.pdf'')])) =
      Inr (Str ''external'')"
  by (simp add: external_webhookData_def js_or_def)

text \<open>
  C9, amended. An external body (any value but \<^verbatim>\<open>undefined\<close> and \<^verbatim>\<open>null\<close>): the
  event's \<^verbatim>\<open>source\<close> is the body's when that is truthy and \<^verbatim>\<open>external\<close> otherwise;
  its \<^verbatim>\<open>documentType\<close> is the body's with no default; its metadata carries
  \<^verbatim>\<open>filename\<close>, \<^verbatim>\<open>externalId\<close>, \<^verbatim>\<open>externalSystem\<close>, \<^verbatim>\<open>createdAt\<close>,
  \<^verbatim>\<open>createdBy\<close> and \<^verbatim>\<open>additionalData\<close> as the body has them.
\<close>

theorem external_normalisation:
  assumes "\<not> nullish data"
  shows "snd (handleExternalSystemWebhook processWebhookDocument data) =
     [\<lparr> source = (if truthy (get_prop data ''source'') then get_prop data ''source''
                  else Str ''external''),
        documentUrl = get_prop data ''documentUrl'',
        documentType = get_prop data ''documentType'',
        metadata = [(''filename'', get_prop data ''filename''),
                    (''externalId'', get_prop data ''externalId''),
                    (''externalSystem'', get_prop data ''externalSystem''),
                    (''createdAt'', get_prop data ''createdAt''),
                    (''createdBy'', get_prop data ''createdBy''),
                    (''additionalData'', get_prop data ''additionalData'')] \<rparr>]"
  using assms
  by (simp add: handleExternalSystemWebhook_def external_webhookData_def js_or_def split: sum.split)

theorem external_normalisation_witness:
  "snd (handleExternalSystemWebhook (\<lambda>wd. Inr Null)
      (Obj [(''source'', Str ''crm-export''), (''documentUrl'', Str ''http://x/d.pdf''),
            (''externalId'', Str ''X1''), (''externalSystem'', Str ''crm''),
            (''additionalData'', Obj [(''k'', Arr [Num 1, Null])])])) =
     [\<lparr> source = Str ''crm-export'',
        documentUrl = Str ''http://x/d.pdf'',
        documentType = Undefined,
        metadata = [(''filename'', Undefined), (''externalId'', Str ''X1''),
                    (''externalSystem'', Str ''crm''), (''createdAt'', Undefined),
                    (''createdBy'', Undefined),
                    (''additionalData'', Obj [(''k'', Arr [Num 1, Null])])] \<rparr>]"
  using external_normalisation [of
      "Obj [(''source'', Str ''crm-export''), (''documentUrl'', Str ''http://x/d.pdf''),
            (''externalId'', Str ''X1''), (''externalSystem'', Str ''crm''),
            (''additionalData'', Obj [(''k'', Arr [Num 1, Null])])]"
      "\<lambda>wd. Inr Null"]
  by simp

section \<open>Properties of the handler\<close>

lemma verifySignature_no_header:
  "headers req ''x-webhook-signature'' = None \<Longrightarrow> \<not> verifySignature req secret"
  by (simp add: verifySignature_unfold)

text \<open>
  C3. A secret is configured for the type of the request and the request has no
  \<^verbatim>\<open>x-webhook-signature\<close> header: \<^verbatim>\<open>verifySignature\<close> is false, the handler answers
  401 with the body of an invalid signature, and the pipeline is not called. The route
  in front of the handler gives the same answer whenever it reaches the handler, that is
  unless the content type is \<^verbatim>\<open>application/json\<close> and \<^verbatim>\<open>JSON.parse\<close> throws.
\<close>

theorem missing_signature_rejected:
  assumes "webhooks (params_type req) = Some secret"
    and "secret \<noteq> []"
    and "headers req ''x-webhook-signature'' = None"
  shows "\<not> verifySignature req secret
    \<and> processWebhook webhooks processWebhookDocument req =
        (error_response ''Invalid webhook signature'' 401, [])
    \<and> (headers req ''content-type'' \<noteq> Some ''application/json''
         \<or> (\<exists>parsed. JSON_parse (foldl (@) [] chunks) = Inr parsed)
       \<longrightarrow> webhookRoute JSON_parse webhooks processWebhookDocument chunks req =
             (error_response ''Invalid webhook signature'' 401, []))"
proof -
  have p: "processWebhook webhooks processWebhookDocument r =
        (error_response ''Invalid webhook signature'' 401, [])"
    if "params_type r = params_type req" "headers r = headers req" for r
    using assms that
    by (simp add: processWebhook_def signature_rejected_def verifySignature_no_header)
  have "\<not> verifySignature req secret"
    using assms(3) by (rule verifySignature_no_header)
  moreover have "webhookRoute JSON_parse webhooks processWebhookDocument chunks req =
             (error_response ''Invalid webhook signature'' 401, [])"
    if "headers req ''content-type'' \<noteq> Some ''application/json''
         \<or> (\<exists>parsed. JSON_parse (foldl (@) [] chunks) = Inr parsed)"
    using that by (auto simp: webhookRoute_def rawBodyParser_def p)
  ultimately show ?thesis using p [of req] by simp
qed

theorem missing_signature_rejected_witness:
  "processWebhook [''email'' \<mapsto> ''s3cret''] (\<lambda>wd. Inr Null)
     \<lparr> params_type = ''email'',
       headers = [''content-type'' \<mapsto> ''application/json''],
       rawBody = ''{}'', body = Obj [] \<rparr> =
   (\<lparr> status = 401,
      payload = Obj [(''error'', Obj [(''message'', Str ''Invalid webhook signature''),
                                     (''status'', Num 401)])] \<rparr>, [])
   \<and> webhookRoute (\<lambda>raw. Inr (Obj [])) [''email'' \<mapsto> ''s3cret''] (\<lambda>wd. Inr Null) [''{}'']
     \<lparr> params_type = ''email'',
       headers = [''content-type'' \<mapsto> ''application/json''],
       rawBody = [], body = Undefined \<rparr> =
   (\<lparr> status = 401,
      payload = Obj [(''error'', Obj [(''message'', Str ''Invalid webhook signature''),
                                     (''status'', Num 401)])] \<rparr>, [])"
  using missing_signature_rejected [of "[''email'' \<mapsto> ''s3cret'']"
      "\<lparr> params_type = ''email'', headers = [''content-type'' \<mapsto> ''application/json''],
         rawBody = ''{}'', body = Obj [] \<rparr>" "''s3cret''" "\<lambda>wd. Inr Null"]
    missing_signature_rejected [where webhooks = "[''email'' \<mapsto> ''s3cret'']"
      and req = "\<lparr> params_type = ''email'',
         headers = [''content-type'' \<mapsto> ''application/json''],
         rawBody = [], body = Undefined \<rparr>"
      and secret = "''s3cret''" and JSON_parse = "\<lambda>raw. Inr (Obj [])" and chunks = "[''{}'']"
      and processWebhookDocument = "\<lambda>wd. Inr Null"]
  by (simp add: error_response_def)

lemma respond_not_401: "status (fst (respond r)) \<noteq> 401"
  by (cases r rule: respond.cases) (simp_all add: error_response_def)

text \<open>
  C4. No secret is configured for the type of the request (none, or the empty string):
  the signature gate lets the request through whatever its headers are, the handler's
  outcome does not depend on the headers, and it is never the 401.
\<close>

theorem no_secret_skips_verification:
  assumes "webhooks (params_type req) = None \<or> webhooks (params_type req) = Some []"
  shows "\<not> signature_rejected webhooks (req \<lparr> headers := h \<rparr>)
    \<and> processWebhook webhooks processWebhookDocument (req \<lparr> headers := h \<rparr>) =
        processWebhook webhooks processWebhookDocument req
    \<and> status (fst (processWebhook webhooks processWebhookDocument req)) \<noteq> 401"
proof -
  have a: "\<not> signature_rejected webhooks (req \<lparr> headers := h' \<rparr>)" for h'
    using assms by (auto simp: signature_rejected_def)
  from a [of "headers req"] have b: "\<not> signature_rejected webhooks req" by simp
  have "status (fst (processWebhook webhooks processWebhookDocument req)) \<noteq> 401"
    using b by (simp add: processWebhook_def respond_not_401 error_response_def)
  moreover have "processWebhook webhooks processWebhookDocument (req \<lparr> headers := h \<rparr>) =
        processWebhook webhooks processWebhookDocument req"
    using a [of h] b by (simp add: processWebhook_def)
  ultimately show ?thesis using a [of h] by simp
qed

theorem no_secret_skips_verification_witness:
  "processWebhook Map.empty (\<lambda>wd. Inr (Str ''stored''))
     \<lparr> params_type = ''scanner'',
       headers = [''x-webhook-signature'' \<mapsto> ''not-a-digest''],
       rawBody = ''{}'', body = Obj [] \<rparr> =
   processWebhook Map.empty (\<lambda>wd. Inr (Str ''stored''))
     \<lparr> params_type = ''scanner'', headers = Map.empty, rawBody = ''{}'', body = Obj [] \<rparr>
   \<and> status (fst (processWebhook Map.empty (\<lambda>wd. Inr (Str ''stored''))
     \<lparr> params_type = ''scanner'', headers = Map.empty, rawBody = ''{}'', body = Obj [] \<rparr>)) = 200"
  using no_secret_skips_verification [of Map.empty
      "\<lparr> params_type = ''scanner'', headers = Map.empty, rawBody = ''{}'', body = Obj [] \<rparr>"
      "[''x-webhook-signature'' \<mapsto> ''not-a-digest'']" "\<lambda>wd. Inr (Str ''stored'')"]
  by (simp add: processWebhook_def signature_rejected_def handleScannerWebhook_def
      scanner_webhookData_def)

text \<open>
  C5, as stated, fails on the status: the signature gate comes before the dispatch, so a
  request of an unknown type for which a secret is configured, and which carries no valid
  signature, is answered 401 and not 400.
\<close>

theorem unsupported_type_counterexample:
  "processWebhook [''fax'' \<mapsto> ''s3cret''] (\<lambda>wd. Inr Null)
     \<lparr> params_type = ''fax'', headers = Map.empty, rawBody = ''{}'', body = Obj [] \<rparr> =
   (\<lparr> status = 401,
      payload = Obj [(''error'', Obj [(''message'', Str ''Invalid webhook signature''),
                                     (''status'', Num 401)])] \<rparr>, [])"
  by (simp add: processWebhook_def signature_rejected_def verifySignature_unfold error_response_def)

text \<open>
  C5, amended. The dispatch compares the type with the three strings \<^verbatim>\<open>email\<close>,
  \<^verbatim>\<open>scanner\<close> and \<^verbatim>\<open>external\<close>. For every other type the pipeline is not called and
  no event is built; the response is the 400 of the unsupported type, unless the
  signature gate has rejected the request, and then it is the 401.
\<close>

theorem unsupported_type:
  assumes "params_type req \<notin> {''email'', ''scanner'', ''external''}"
  shows "processWebhook webhooks processWebhookDocument req =
     (if signature_rejected webhooks req
      then error_response ''Invalid webhook signature'' 401
      else error_response (''Unsupported webhook type: '' @ params_type req) 400, [])"
  using assms by (simp add: processWebhook_def)

theorem unsupported_type_witness:
  "processWebhook Map.empty (\<lambda>wd. Inr Null)
     \<lparr> params_type = ''fax'', headers = Map.empty, rawBody = ''{}'', body = Obj [] \<rparr> =
   (\<lparr> status = 400,
      payload = Obj [(''error'', Obj [(''message'', Str ''Unsupported webhook type: fax''),
                                     (''status'', Num 400)])] \<rparr>, [])"
  using unsupported_type [of
      "\<lparr> params_type = ''fax'', headers = Map.empty, rawBody = ''{}'', body = Obj [] \<rparr>"
      Map.empty "\<lambda>wd. Inr Null"]
  by (simp add: signature_rejected_def error_response_def)


lemma handleEmailWebhook_outcome:
  "(\<exists>m. handleEmailWebhook pw data = (Inl m, []))
   \<or> (\<exists>wd e. handleEmailWebhook pw data = (Inl (''Failed to handle email webhook: '' @ e), [wd])
          \<and> pw wd = Inl e)
   \<or> (\<exists>wd r. handleEmailWebhook pw data = (Inr r, [wd]) \<and> pw wd = Inr r)"
  by (auto simp: handleEmailWebhook_def split: sum.split)

lemma handleScannerWebhook_outcome:
  "(\<exists>m. handleScannerWebhook pw data = (Inl m, []))
   \<or> (\<exists>wd e. handleScannerWebhook pw data = (Inl (''Failed to handle scanner webhook: '' @ e), [wd])
          \<and> pw wd = Inl e)
   \<or> (\<exists>wd r. handleScannerWebhook pw data = (Inr r, [wd]) \<and> pw wd = Inr r)"
  by (auto simp: handleScannerWebhook_def split: sum.split)

lemma handleExternalSystemWebhook_outcome:
  "(\<exists>m. handleExternalSystemWebhook pw data = (Inl m, []))
   \<or> (\<exists>wd e. handleExternalSystemWebhook pw data =
                 (Inl (''Failed to handle external system webhook: '' @ e), [wd])
          \<and> pw wd = Inl e)
   \<or> (\<exists>wd r. handleExternalSystemWebhook pw data = (Inr r, [wd]) \<and> pw wd = Inr r)"
  by (auto simp: handleExternalSystemWebhook_def split: sum.split)

lemma respond_outcome:
  assumes "(\<exists>m. h = (Inl m, []))
   \<or> (\<exists>wd e. h = (Inl (p @ e), [wd]) \<and> pw wd = Inl e)
   \<or> (\<exists>wd r. h = (Inr r, [wd]) \<and> pw wd = Inr r)"
  shows "outcome_ok pw t (respond h)"
  using assms by (elim disjE exE conjE) (simp_all, blast+)

lemma processWebhook_outcome:
  "outcome_ok pw (params_type req) (processWebhook webhooks pw req)"
proof -
  consider (rej) "signature_rejected webhooks req"
    | (email) "\<not> signature_rejected webhooks req" "params_type req = ''email''"
    | (scanner) "\<not> signature_rejected webhooks req" "params_type req = ''scanner''"
    | (external) "\<not> signature_rejected webhooks req" "params_type req = ''external''"
    | (other) "\<not> signature_rejected webhooks req" "params_type req \<noteq> ''email''"
        "params_type req \<noteq> ''scanner''" "params_type req \<noteq> ''external''"
    by blast
  then show ?thesis
  proof cases
    case rej
    then show ?thesis by (simp add: processWebhook_def)
  next
    case email
    then show ?thesis
      using respond_outcome [OF handleEmailWebhook_outcome]
      by (simp add: processWebhook_def)
  next
    case scanner
    then show ?thesis
      using respond_outcome [OF handleScannerWebhook_outcome]
      by (simp add: processWebhook_def)
  next
    case external
    then show ?thesis
      using respond_outcome [OF handleExternalSystemWebhook_outcome]
      by (simp add: processWebhook_def)
  next
    case other
    then show ?thesis by (simp add: processWebhook_def)
  qed
qed

lemma webhookRoute_outcome:
  "outcome_ok pw (params_type req) (webhookRoute P webhooks pw chunks req)"
proof (cases "headers req ''content-type'' = Some ''application/json''")
  case True
  show ?thesis
  proof (cases "P (foldl (@) [] chunks)")
    case (Inl m)
    with True show ?thesis
      by (auto simp: webhookRoute_def rawBodyParser_def)
  next
    case (Inr v)
    with True show ?thesis
      using processWebhook_outcome [where pw = pw and webhooks = webhooks
          and req = "req \<lparr> rawBody := foldl (@) [] chunks, body := v \<rparr>"]
      by (simp add: webhookRoute_def rawBodyParser_def)
  qed
next
  case False
  then show ?thesis
    using processWebhook_outcome [where pw = pw and webhooks = webhooks
        and req = "req \<lparr> rawBody := foldl (@) [] chunks \<rparr>"]
    by (simp add: webhookRoute_def rawBodyParser_def)
qed


lemma builders_throw:
  "nullish v \<Longrightarrow> email_webhookData v = Inl (cannot_read v ''attachments'')"
  "nullish v \<Longrightarrow> scanner_webhookData v = Inl (cannot_read v ''documentUrl'')"
  "nullish v \<Longrightarrow> external_webhookData v = Inl (cannot_read v ''source'')"
  by (simp_all add: email_webhookData_def scanner_webhookData_def external_webhookData_def)

lemma handleEmailWebhook_result:
  "handleEmailWebhook pw data =
     (case email_webhookData data of
        Inl m \<Rightarrow> (Inl (''Failed to handle email webhook: '' @ m), [])
      | Inr wd \<Rightarrow> (case pw wd of
                    Inl e \<Rightarrow> (Inl (''Failed to handle email webhook: '' @ e), [wd])
                  | Inr result \<Rightarrow> (Inr result, [wd])))"
  by (simp add: handleEmailWebhook_def)

lemma handleScannerWebhook_result:
  "handleScannerWebhook pw data =
     (case scanner_webhookData data of
        Inl m \<Rightarrow> (Inl (''Failed to handle scanner webhook: '' @ m), [])
      | Inr wd \<Rightarrow> (case pw wd of
                    Inl e \<Rightarrow> (Inl (''Failed to handle scanner webhook: '' @ e), [wd])
                  | Inr result \<Rightarrow> (Inr result, [wd])))"
  by (simp add: handleScannerWebhook_def)

lemma handleExternalSystemWebhook_result:
  "handleExternalSystemWebhook pw data =
     (case external_webhookData data of
        Inl m \<Rightarrow> (Inl (''Failed to handle external system webhook: '' @ m), [])
      | Inr wd \<Rightarrow> (case pw wd of
                    Inl e \<Rightarrow> (Inl (''Failed to handle external system webhook: '' @ e), [wd])
                  | Inr result \<Rightarrow> (Inr result, [wd])))"
  by (simp add: handleExternalSystemWebhook_def)

text \<open>
  C10. In the model a throw is the \<open>Inl\<close> of a result, and the boundary is the
  \<^verbatim>\<open>catch\<close> of \<^verbatim>\<open>processWebhook\<close> and, for \<^verbatim>\<open>JSON.parse\<close>, that of the route.
  \<^item> A throw of \<^verbatim>\<open>JSON.parse\<close> is answered by the route with the 500 that carries its
    message, and the pipeline is not called; otherwise the route's answer is the
    handler's, on the request with its raw and parsed body.
  \<^item> For a request \<open>r\<close> that the signature gate lets through and each of the three types:
    a throw with message \<open>m\<close> while the event is built is answered with the 500 whose
    message is the handler's prefix and \<open>m\<close>, with no call of the pipeline; a pipeline
    that rejects the event with \<open>e\<close> is answered with the 500 whose message is the prefix
    and \<open>e\<close>, after this one call; a pipeline that resolves is answered 200 with its
    result.
  \<^item> Building the event throws for a body \<open>v\<close> that is \<^verbatim>\<open>undefined\<close> or \<^verbatim>\<open>null\<close>.
  \<^item> Every run of the route ends in a response, one of the outcomes listed with \<open>outcome_ok\<close>,
    each of whose error bodies is \<^verbatim>\<open>{error: {message, status}}\<close>, and the pipeline is
    called at most once.
\<close>

theorem errors_become_responses:
  "(headers req ''content-type'' = Some ''application/json'' \<longrightarrow>
      (\<forall>m. JSON_parse (foldl (@) [] chunks) = Inl m \<longrightarrow>
         webhookRoute JSON_parse webhooks processWebhookDocument chunks req =
           (error_response m 500, []))
    \<and> (\<forall>parsed. JSON_parse (foldl (@) [] chunks) = Inr parsed \<longrightarrow>
         webhookRoute JSON_parse webhooks processWebhookDocument chunks req =
           processWebhook webhooks processWebhookDocument
             (req \<lparr> rawBody := foldl (@) [] chunks, body := parsed \<rparr>)))
   \<and> (headers req ''content-type'' \<noteq> Some ''application/json'' \<longrightarrow>
         webhookRoute JSON_parse webhooks processWebhookDocument chunks req =
           processWebhook webhooks processWebhookDocument
             (req \<lparr> rawBody := foldl (@) [] chunks \<rparr>))
   \<and> (\<not> signature_rejected webhooks r \<longrightarrow>
        (params_type r = ''email'' \<longrightarrow>
           (\<forall>m. email_webhookData (body r) = Inl m \<longrightarrow>
              processWebhook webhooks processWebhookDocument r =
                (error_response (''Failed to handle email webhook: '' @ m) 500, []))
         \<and> (\<forall>wd e. email_webhookData (body r) = Inr wd \<and> processWebhookDocument wd = Inl e \<longrightarrow>
              processWebhook webhooks processWebhookDocument r =
                (error_response (''Failed to handle email webhook: '' @ e) 500, [wd]))
         \<and> (\<forall>wd result. email_webhookData (body r) = Inr wd
                \<and> processWebhookDocument wd = Inr result \<longrightarrow>
              processWebhook webhooks processWebhookDocument r =
                (\<lparr> status = 200, payload = result \<rparr>, [wd])))
      \<and> (params_type r = ''scanner'' \<longrightarrow>
           (\<forall>m. scanner_webhookData (body r) = Inl m \<longrightarrow>
              processWebhook webhooks processWebhookDocument r =
                (error_response (''Failed to handle scanner webhook: '' @ m) 500, []))
         \<and> (\<forall>wd e. scanner_webhookData (body r) = Inr wd \<and> processWebhookDocument wd = Inl e \<longrightarrow>
              processWebhook webhooks processWebhookDocument r =
                (error_response (''Failed to handle scanner webhook: '' @ e) 500, [wd]))
         \<and> (\<forall>wd result. scanner_webhookData (body r) = Inr wd
                \<and> processWebhookDocument wd = Inr result \<longrightarrow>
              processWebhook webhooks processWebhookDocument r =
                (\<lparr> status = 200, payload = result \<rparr>, [wd])))
      \<and> (params_type r = ''external'' \<longrightarrow>
           (\<forall>m. external_webhookData (body r) = Inl m \<longrightarrow>
              processWebhook webhooks processWebhookDocument r =
                (error_response (''Failed to handle external system webhook: '' @ m) 500, []))
         \<and> (\<forall>wd e. external_webhookData (body r) = Inr wd \<and> processWebhookDocument wd = Inl e \<longrightarrow>
              processWebhook webhooks processWebhookDocument r =
                (error_response (''Failed to handle external system webhook: '' @ e) 500, [wd]))
         \<and> (\<forall>wd result. external_webhookData (body r) = Inr wd
                \<and> processWebhookDocument wd = Inr result \<longrightarrow>
              processWebhook webhooks processWebhookDocument r =
                (\<lparr> status = 200, payload = result \<rparr>, [wd]))))
   \<and> (nullish v \<longrightarrow>
        email_webhookData v = Inl (cannot_read v ''attachments'')
      \<and> scanner_webhookData v = Inl (cannot_read v ''documentUrl'')
      \<and> external_webhookData v = Inl (cannot_read v ''source''))
   \<and> outcome_ok processWebhookDocument (params_type req)
        (webhookRoute JSON_parse webhooks processWebhookDocument chunks req)
   \<and> length (snd (webhookRoute JSON_parse webhooks processWebhookDocument chunks req)) \<le> 1"
proof -
  let ?out = "webhookRoute JSON_parse webhooks processWebhookDocument chunks req"
  have route: "(headers req ''content-type'' = Some ''application/json'' \<longrightarrow>
      (\<forall>m. JSON_parse (foldl (@) [] chunks) = Inl m \<longrightarrow> ?out = (error_response m 500, []))
    \<and> (\<forall>parsed. JSON_parse (foldl (@) [] chunks) = Inr parsed \<longrightarrow>
         ?out = processWebhook webhooks processWebhookDocument
             (req \<lparr> rawBody := foldl (@) [] chunks, body := parsed \<rparr>)))
   \<and> (headers req ''content-type'' \<noteq> Some ''application/json'' \<longrightarrow>
         ?out = processWebhook webhooks processWebhookDocument
             (req \<lparr> rawBody := foldl (@) [] chunks \<rparr>))"
    by (simp add: webhookRoute_def rawBodyParser_def)
  have email:
    "(\<forall>m. email_webhookData (body r) = Inl m \<longrightarrow>
              processWebhook webhooks processWebhookDocument r =
                (error_response (''Failed to handle email webhook: '' @ m) 500, []))"
    "(\<forall>wd e. email_webhookData (body r) = Inr wd \<and> processWebhookDocument wd = Inl e \<longrightarrow>
              processWebhook webhooks processWebhookDocument r =
                (error_response (''Failed to handle email webhook: '' @ e) 500, [wd]))"
    "(\<forall>wd result. email_webhookData (body r) = Inr wd
                \<and> processWebhookDocument wd = Inr result \<longrightarrow>
              processWebhook webhooks processWebhookDocument r =
                (\<lparr> status = 200, payload = result \<rparr>, [wd]))"
    if "\<not> signature_rejected webhooks r" "params_type r = ''email''"
    using that by (simp_all add: processWebhook_def handleEmailWebhook_result)
  have scanner:
    "(\<forall>m. scanner_webhookData (body r) = Inl m \<longrightarrow>
              processWebhook webhooks processWebhookDocument r =
                (error_response (''Failed to handle scanner webhook: '' @ m) 500, []))"
    "(\<forall>wd e. scanner_webhookData (body r) = Inr wd \<and> processWebhookDocument wd = Inl e \<longrightarrow>
              processWebhook webhooks processWebhookDocument r =
                (error_response (''Failed to handle scanner webhook: '' @ e) 500, [wd]))"
    "(\<forall>wd result. scanner_webhookData (body r) = Inr wd
                \<and> processWebhookDocument wd = Inr result \<longrightarrow>
              processWebhook webhooks processWebhookDocument r =
                (\<lparr> status = 200, payload = result \<rparr>, [wd]))"
    if "\<not> signature_rejected webhooks r" "params_type r = ''scanner''"
    using that by (simp_all add: processWebhook_def handleScannerWebhook_result)
  have external:
    "(\<forall>m. external_webhookData (body r) = Inl m \<longrightarrow>
              processWebhook webhooks processWebhookDocument r =
                (error_response (''Failed to handle external system webhook: '' @ m) 500, []))"
    "(\<forall>wd e. external_webhookData (body r) = Inr wd \<and> processWebhookDocument wd = Inl e \<longrightarrow>
              processWebhook webhooks processWebhookDocument r =
                (error_response (''Failed to handle external system webhook: '' @ e) 500, [wd]))"
    "(\<forall>wd result. external_webhookData (body r) = Inr wd
                \<and> processWebhookDocument wd = Inr result \<longrightarrow>
              processWebhook webhooks processWebhookDocument r =
                (\<lparr> status = 200, payload = result \<rparr>, [wd]))"
    if "\<not> signature_rejected webhooks r" "params_type r = ''external''"
    using that by (simp_all add: processWebhook_def handleExternalSystemWebhook_result)
  have o: "outcome_ok processWebhookDocument (params_type req) ?out"
    by (rule webhookRoute_outcome)
  have n: "length (snd ?out) \<le> 1"
    using o by (elim disjE exE conjE) simp_all
  show ?thesis
    apply (rule conjI, rule conjunct1 [OF route])
    apply (rule conjI, rule conjunct2 [OF route])
    apply (rule conjI)
     apply (intro impI conjI)
             apply (erule (1) email scanner external)+
    apply (rule conjI)
     apply (intro impI conjI)
       apply (erule builders_throw)+
    apply (rule conjI, rule o)
    apply (rule n)
    done
qed

text \<open>
  An email request whose body is \<^verbatim>\<open>null\<close>; a scanner request whose pipeline call is
  rejected; a request whose body \<^verbatim>\<open>JSON.parse\<close> refuses.
\<close>

theorem errors_become_responses_witness:
  \<open>webhookRoute (\<lambda>raw. Inr Null) Map.empty (\<lambda>wd. Inr (Str ''stored'')) [''null'']
     \<lparr> params_type = ''email'', headers = [''content-type'' \<mapsto> ''application/json''],
       rawBody = [], body = Undefined \<rparr> =
   (\<lparr> status = 500,
      payload = Obj [(''error'',
        Obj [(''message'', Str (''Failed to handle email webhook: ''
                @ ''Cannot read properties of null (reading '' @ [CHR 0x27] @ ''attachments''
                @ [CHR 0x27] @ '')'')),
             (''status'', Num 500)])] \<rparr>, [])
   \<and> webhookRoute (\<lambda>raw. Inr (Obj [(''documentUrl'', Str ''http://x/s.png'')])) Map.empty
     (\<lambda>wd. Inl ''connect ECONNREFUSED'') [''{"documentUrl":'', ''"http://x/s.png"}'']
     \<lparr> params_type = ''scanner'', headers = [''content-type'' \<mapsto> ''application/json''],
       rawBody = [], body = Undefined \<rparr> =
   (\<lparr> status = 500,
      payload = Obj [(''error'',
        Obj [(''message'', Str ''Failed to handle scanner webhook: connect ECONNREFUSED''),
             (''status'', Num 500)])] \<rparr>,
    [\<lparr> source = Str ''scanner'', documentUrl = Str ''http://x/s.png'',
       documentType = Str ''application/pdf'',
       metadata = [(''filename'', Undefined), (''scannedBy'', Undefined),
                   (''scannedAt'', Undefined), (''deviceId'', Undefined),
                   (''resolution'', Undefined)] \<rparr>])
   \<and> webhookRoute (\<lambda>raw. Inl ''Unexpected token } in JSON at position 0'') Map.empty
     (\<lambda>wd. Inr (Str ''stored'')) [''}'']
     \<lparr> params_type = ''email'', headers = [''content-type'' \<mapsto> ''application/json''],
       rawBody = [], body = Undefined \<rparr> =
   (\<lparr> status = 500,
      payload = Obj [(''error'',
        Obj [(''message'', Str ''Unexpected token } in JSON at position 0''),
             (''status'', Num 500)])] \<rparr>, [])\<close>
proof -
  let ?h = \<open>[''content-type'' \<mapsto> ''application/json'']\<close>
  have 1: \<open>webhookRoute (\<lambda>raw. Inr Null) Map.empty (\<lambda>wd. Inr (Str ''stored'')) [''null'']
     \<lparr> params_type = ''email'', headers = ?h, rawBody = [], body = Undefined \<rparr> =
     (error_response (''Failed to handle email webhook: '' @ cannot_read Null ''attachments'') 500, [])\<close>
    using errors_become_responses [where JSON_parse = \<open>\<lambda>raw. Inr Null\<close> and webhooks = Map.empty
        and processWebhookDocument = \<open>\<lambda>wd. Inr (Str ''stored'')\<close> and chunks = \<open>[''null'']\<close>
        and req = \<open>\<lparr> params_type = ''email'', headers = ?h, rawBody = [], body = Undefined \<rparr>\<close>
        and r = \<open>\<lparr> params_type = ''email'', headers = ?h, rawBody = ''null'', body = Null \<rparr>\<close>
        and v = Null]
    by (simp add: signature_rejected_def)
  have 2: \<open>webhookRoute (\<lambda>raw. Inr (Obj [(''documentUrl'', Str ''http://x/s.png'')])) Map.empty
     (\<lambda>wd. Inl ''connect ECONNREFUSED'') [''{"documentUrl":'', ''"http://x/s.png"}'']
     \<lparr> params_type = ''scanner'', headers = ?h, rawBody = [], body = Undefined \<rparr> =
     (error_response ''Failed to handle scanner webhook: connect ECONNREFUSED'' 500,
      [\<lparr> source = Str ''scanner'', documentUrl = Str ''http://x/s.png'',
         documentType = Str ''application/pdf'',
         metadata = [(''filename'', Undefined), (''scannedBy'', Undefined),
                     (''scannedAt'', Undefined), (''deviceId'', Undefined),
                     (''resolution'', Undefined)] \<rparr>])\<close>
    using errors_become_responses [where
        JSON_parse = \<open>\<lambda>raw. Inr (Obj [(''documentUrl'', Str ''http://x/s.png'')])\<close>
        and webhooks = Map.empty
        and processWebhookDocument = \<open>\<lambda>wd. Inl ''connect ECONNREFUSED''\<close>
        and chunks = \<open>[''{"documentUrl":'', ''"http://x/s.png"}'']\<close>
        and req = \<open>\<lparr> params_type = ''scanner'', headers = ?h, rawBody = [], body = Undefined \<rparr>\<close>
        and r = \<open>\<lparr> params_type = ''scanner'', headers = ?h,
                 rawBody = ''{"documentUrl":"http://x/s.png"}'',
                 body = Obj [(''documentUrl'', Str ''http://x/s.png'')] \<rparr>\<close>
        and v = Null]
    by (simp add: signature_rejected_def scanner_webhookData_def js_or_def)
  have 3: \<open>webhookRoute (\<lambda>raw. Inl ''Unexpected token } in JSON at position 0'') Map.empty
     (\<lambda>wd. Inr (Str ''stored'')) [''}'']
     \<lparr> params_type = ''email'', headers = ?h, rawBody = [], body = Undefined \<rparr> =
     (error_response ''Unexpected token } in JSON at position 0'' 500, [])\<close>
    using errors_become_responses [where
        JSON_parse = \<open>\<lambda>raw. Inl ''Unexpected token } in JSON at position 0''\<close>
        and webhooks = Map.empty and processWebhookDocument = \<open>\<lambda>wd. Inr (Str ''stored'')\<close>
        and chunks = \<open>[''}'']\<close>
        and req = \<open>\<lparr> params_type = ''email'', headers = ?h, rawBody = [], body = Undefined \<rparr>\<close>]
    by simp
  from 1 2 3 show ?thesis
    by (simp add: error_response_def cannot_read_def)
qed

section \<open>Properties of the signature check\<close>

text \<open>Cutting to the low 32 bits is the remainder modulo \<open>2 ^ 32\<close>.\<close>

lemma mask32: "(4294967295::nat) = mask 32"
  by (simp add: mask_eq_exp_minus_1)

lemma add32_mod: "add32 a b = (a + b) mod 2 ^ 32"
  unfolding add32_def mask32 by (simp add: take_bit_eq_mod flip: take_bit_eq_mask)

lemma byte_less_256: "byte c < 256"
  by (simp add: byte_def)

lemma nat_or_eq_0: "(a::nat) OR b = 0 \<longleftrightarrow> a = 0 \<and> b = 0"
  by (simp add: or_eq_0_iff)

lemma nat_xor_eq_0: "(a::nat) XOR b = 0 \<longleftrightarrow> a = b"
proof
  assume "a XOR b = 0"
  then have "(a XOR b) XOR b = 0 XOR b" by simp
  then show "a = b" by (simp add: xor.assoc)
qed simp

lemma byte_xor_eq_0: "byte x XOR byte y = 0 \<longleftrightarrow> x = y"
  by (simp add: nat_xor_eq_0 byte_def)

lemma ct_compare_fst:
  "length a = length b \<Longrightarrow> fst (ct_compare a b (acc, n)) = 0 \<longleftrightarrow> acc = 0 \<and> a = b"
proof (induction a b "(acc, n)" arbitrary: acc n rule: ct_compare.induct)
  case (1 x xs y ys acc n)
  then show ?case by (auto simp: nat_or_eq_0 byte_xor_eq_0)
qed auto


lemma timingSafeEqual_eq:
  "fst (timingSafeEqual a b) = Inr True \<longleftrightarrow> a = b"
  by (auto simp: timingSafeEqual_def ct_compare_fst)


lemma length_hex: "length (hex bs) = 2 * length bs"
  by (induction bs) auto

lemma length_be_bytes: "length (be_bytes w) = 4"
  by (simp add: be_bytes_def)

lemma length_sha256: "length (sha256 m) = 32"
  by (cases "sha_blocks H256 (sha_pad m)" rule: state_bytes.cases)
     (simp add: sha256_def length_be_bytes)

lemma length_digest: "length (digest secret text) = 64"
  by (simp add: digest_def hmac_sha256_def length_hex length_sha256)

lemma hexdigit_ascii: "n < 16 \<Longrightarrow> byte (hexdigit n) < 128"
proof -
  assume "n < 16"
  then have "hexdigit n \<in> set ''0123456789abcdef''"
    unfolding hexdigit_def by (intro nth_mem) simp
  then show ?thesis by (auto simp: byte_def)
qed

lemma hex_ascii: "c \<in> set (hex bs) \<Longrightarrow> byte c < 128"
proof (induction bs)
  case (Cons b bs)
  have "byte b div 16 < 16" using byte_less_256 [of b] by simp
  moreover have "byte b mod 16 < 16" by simp
  ultimately show ?case using Cons by (auto simp: hexdigit_ascii)
qed simp

lemma Buffer_from_ascii: "(\<And>c. c \<in> set s \<Longrightarrow> byte c < 128) \<Longrightarrow> Buffer_from s = s"
  by (induction s) auto

lemma Buffer_from_eq_ascii:
  assumes "\<And>c. c \<in> set t \<Longrightarrow> byte c < 128"
  shows "Buffer_from s = t \<longleftrightarrow> s = t"
proof
  assume "s = t"
  with assms show "Buffer_from s = t" by (simp add: Buffer_from_ascii)
next
  assume "Buffer_from s = t"
  with assms show "s = t"
  proof (induction s arbitrary: t)
    case Nil
    then show ?case by simp
  next
    case (Cons c cs)
    show ?case
    proof (cases "byte c < 128")
      case True
      with Cons.prems have t: "t = c # Buffer_from cs" by simp
      then have "\<And>d. d \<in> set (Buffer_from cs) \<Longrightarrow> byte d < 128"
        using Cons.prems(1) by simp
      from Cons.IH [OF this refl] t show ?thesis by simp
    next
      case False
      with Cons.prems have "char_of (192 + byte c div 64) \<in> set t" by auto
      then have "byte (char_of (192 + byte c div 64)) < 128" by (rule Cons.prems(1))
      moreover have "byte c div 64 < 4" using byte_less_256 [of c] by simp
      ultimately show ?thesis by (simp add: byte_def)
    qed
  qed
qed

lemma digest_ascii: "c \<in> set (digest secret text) \<Longrightarrow> byte c < 128"
  unfolding digest_def by (rule hex_ascii)

lemma verifySignature_eq:
  assumes "headers req ''x-webhook-signature'' = Some signature"
    and "JSON_stringify (body req) = Some serialized"
  shows "verifySignature req secret \<longleftrightarrow> signature = digest secret serialized"
proof -
  have d: "Buffer_from (digest secret serialized) = digest secret serialized"
    by (rule Buffer_from_ascii) (rule digest_ascii)
  have e: "Buffer_from signature = digest secret serialized \<longleftrightarrow> signature = digest secret serialized"
    by (rule Buffer_from_eq_ascii) (rule digest_ascii)
  have ne: "digest secret serialized \<noteq> []"
    using length_digest [of secret serialized] by auto
  show ?thesis
  proof (cases "fst (timingSafeEqual (digest secret serialized) (Buffer_from signature))")
    case (Inl m)
    then have "fst (timingSafeEqual (digest secret serialized) (Buffer_from signature)) \<noteq> Inr True"
      by simp
    then have "digest secret serialized \<noteq> Buffer_from signature" by (simp add: timingSafeEqual_eq)
    with Inl assms d e ne show ?thesis by (auto simp: verifySignature_unfold)
  next
    case (Inr b)
    have "b \<longleftrightarrow> digest secret serialized = Buffer_from signature"
      using timingSafeEqual_eq [of "digest secret serialized" "Buffer_from signature"] Inr by auto
    with Inr assms d e ne show ?thesis by (auto simp: verifySignature_unfold)
  qed
qed


section \<open>Evaluating the text of a number\<close>

lemma shortest_numeral:
  "shortest m e (numeral n) =
     (case candidate m e (numeral n) of
        Some c \<Rightarrow> (c, numeral n)
      | None \<Rightarrow> shortest m e (pred_numeral n))"
  unfolding numeral_eq_Suc by simp

lemmas nearest_eval = nearest_double_def reaches_def bit_length.simps Let_def

lemmas shortest_eval = shortest_numeral candidate_def rounds_to_def scaled_def Let_def

text \<open>The literal \<^verbatim>\<open>1.5\<close>.\<close>

lemma nearest_fraction: "nearest_double 15 1 = Some (6755399441055744, - 52)"
  by (simp add: nearest_eval)

lemma digits_fraction: "length (show_nat (scaled 6755399441055744 (- 52))) = 53"
  by (simp add: scaled_def show_nat.simps)

lemma shortest_fraction: "shortest 6755399441055744 (- 52) 53 = (15000000000000000000000000000000000000000000000000000, 51)"
  by (simp add: shortest_eval)

lemma show_double_fraction: "show_double 6755399441055744 (- 52) = ''1.5''"
  apply (simp only: show_double_def digits_fraction shortest_fraction prod.case)
  apply (simp add: Let_def show_nat.simps hexdigit_def)
  done

lemma Number_text_fraction: "Number_text 15 1 = ''1.5''"
  by (simp add: Number_text_def nearest_fraction show_double_fraction del: One_nat_def)

text \<open>The literal \<^verbatim>\<open>1e21\<close>, the least integer written with an exponent.\<close>

lemma nearest_large: "nearest_double 1000000000000000000000 0 = Some (7629394531250000, 17)"
  by (simp add: nearest_eval)

lemma digits_large: "length (show_nat (scaled 7629394531250000 17)) = 22"
  by (simp add: scaled_def show_nat.simps)

lemma shortest_large: "shortest 7629394531250000 17 22 = (1000000000000000000000, 21)"
  by (simp add: shortest_eval)

lemma show_double_large: "show_double 7629394531250000 17 = ''1e+21''"
  apply (simp only: show_double_def digits_large shortest_large prod.case)
  apply (simp add: Let_def show_nat.simps hexdigit_def)
  done

lemma Number_text_large: "Number_text 1000000000000000000000 0 = ''1e+21''"
  by (simp add: Number_text_def nearest_large show_double_large del: One_nat_def)

text \<open>The literal \<^verbatim>\<open>-2.5e-7\<close>.\<close>

lemma nearest_small: "nearest_double 25 8 = Some (4722366482869645, - 74)"
  by (simp add: nearest_eval)

lemma digits_small: "length (show_nat (scaled 4722366482869645 (- 74))) = 68"
  by (simp add: scaled_def show_nat.simps)

lemma shortest_small: "shortest 4722366482869645 (- 74) 68 = (25000000000000000000000000000000000000000000000000000000000000000000, 66)"
  by (simp add: shortest_eval)

lemma show_double_small: "show_double 4722366482869645 (- 74) = ''2.5e-7''"
  apply (simp only: show_double_def digits_small shortest_small prod.case)
  apply (simp add: Let_def show_nat.simps hexdigit_def)
  done

lemma Number_text_small: "Number_text (- 25) 8 = ''-2.5e-7''"
  by (simp add: Number_text_def nearest_small show_double_small del: One_nat_def)

text \<open>The literal \<open>2 ^ 53 + 1\<close>, which is not a double.\<close>

lemma nearest_rounded: "nearest_double 9007199254740993 0 = Some (4503599627370496, 1)"
  by (simp add: nearest_eval)

lemma digits_rounded: "length (show_nat (scaled 4503599627370496 1)) = 16"
  by (simp add: scaled_def show_nat.simps)

lemma shortest_rounded: "shortest 4503599627370496 1 16 = (9007199254740992, 0)"
  by (simp add: shortest_eval)

lemma show_double_rounded: "show_double 4503599627370496 1 = ''9007199254740992''"
  apply (simp only: show_double_def digits_rounded shortest_rounded prod.case)
  apply (simp add: Let_def show_nat.simps hexdigit_def)
  done

lemma Number_text_rounded: "Number_text 9007199254740993 0 = ''9007199254740992''"
  by (simp add: Number_text_def nearest_rounded show_double_rounded del: One_nat_def)

lemma stringify_numbers:
  "JSON_stringify (Arr [Dec 15 1, Num 1000000000000000000000, Dec (- 25) 8, Num 9007199254740993])
     = Some ''[1.5,1e+21,-2.5e-7,9007199254740992]''"
  by (simp add: JSON_stringify_def Number_text_fraction Number_text_large Number_text_small
      Number_text_rounded del: One_nat_def)

section \<open>Evaluating the digest\<close>

text \<open>Rules that let the simplifier run the hash on a literal message.\<close>

lemma schedule_numeral:
  "schedule (numeral n) ws =
     schedule (pred_numeral n)
       (add32 (add32 (add32 (ssig1 (ws ! 1)) (ws ! 6)) (ssig0 (ws ! 14))) (ws ! 15) # ws)"
  by (simp add: numeral_eq_Suc)

lemma replicate_numeral_Cons: "replicate (numeral n) x = x # replicate (pred_numeral n) x"
  by (simp add: numeral_eq_Suc)

lemmas digest_eval = digest_def hmac_sha256_def hmac_key_def xor_byte_def sha256_def
  sha_blocks.simps sha_pad_def len_bytes_def be_bytes_def byte_def compress_def K256_def H256_def
  T1_def T2_def Ch_def Maj_def bsig0_def bsig1_def ssig0_def ssig1_def rotr_def shr_def
  add32_def not32_def schedule_numeral replicate_numeral_Cons hexdigit_def

lemma digest_raw:
  \<open>digest ''s'' ''{"a": 1}'' = ''949bcc317b02bd1bb67ed8ab506dc02639b2f4d1b137997641bcd66d30bae32b''\<close>
  by (simp add: digest_eval)

lemma digest_reserialized:
  \<open>digest ''s'' ''{"a":1}'' = ''37beaf650f70b40ec9706929c2e9d835cbd63729988f48781e6383a147215f07''\<close>
  by (simp add: digest_eval)

lemma stringify_a1: \<open>JSON_stringify (Obj [(''a'', Num 1)]) = Some ''{"a":1}''\<close>
  by (simp add: JSON_stringify_def JSON_quote_def esc_char_def Number_text_def show_nat.simps
      hexdigit_def byte_def)

text \<open>The first test vector of FIPS 180-4, and the second test case of RFC 4231.\<close>

lemma sha256_abc:
  "hex (sha256 ''abc'') = ''ba7816bf8f01cfea414140de5dae2223b00361a396177a9cb410ff61f20015ad''"
  by (simp add: digest_eval)

lemma hmac_sha256_rfc4231:
  "digest ''Jefe'' ''what do ya want for nothing?'' =
     ''5bdcc146bf60754e6a042426089575c75a003f089d2739839dec58b964ec3843''"
  by (simp add: digest_eval)



text \<open>
  C1, at a failing input. The secret \<^verbatim>\<open>s\<close> is configured for \<^verbatim>\<open>email\<close>; the body on
  the wire is \<^verbatim>\<open>{"a": 1}\<close>, with a space after the colon, in two chunks; the signature
  header is the hexadecimal HMAC of these very bytes. \<^verbatim>\<open>JSON.parse\<close> gives the object
  with the one property \<^verbatim>\<open>a\<close>, whose serialisation \<^verbatim>\<open>{"a":1}\<close> has no space:
  \<^verbatim>\<open>verifySignature\<close> hashes the serialisation, finds another digest and answers false,
  and the route answers 401 without calling the pipeline.
\<close>

theorem reserialized_body_is_hashed:
  \<open>JSON_stringify (Obj [(''a'', Num 1)]) = Some ''{"a":1}''
   \<and> \<not> verifySignature
       \<lparr> params_type = ''email'',
         headers = [''content-type'' \<mapsto> ''application/json'',
                    ''x-webhook-signature'' \<mapsto> digest ''s'' ''{"a": 1}''],
         rawBody = ''{"a": 1}'', body = Obj [(''a'', Num 1)] \<rparr> ''s''
   \<and> webhookRoute
       (\<lambda>raw. if raw = ''{"a": 1}'' then Inr (Obj [(''a'', Num 1)]) else Inl ''Unexpected token'')
       [''email'' \<mapsto> ''s''] (\<lambda>wd. Inr Null) [''{"a"'', '': 1}'']
       \<lparr> params_type = ''email'',
         headers = [''content-type'' \<mapsto> ''application/json'',
                    ''x-webhook-signature'' \<mapsto> digest ''s'' ''{"a": 1}''],
         rawBody = [], body = Undefined \<rparr> =
     (\<lparr> status = 401,
        payload = Obj [(''error'', Obj [(''message'', Str ''Invalid webhook signature''),
                                       (''status'', Num 401)])] \<rparr>, [])\<close>
proof -
  let ?h = \<open>[''content-type'' \<mapsto> ''application/json'',
             ''x-webhook-signature'' \<mapsto> digest ''s'' ''{"a": 1}'']\<close>
  have v: \<open>\<not> verifySignature \<lparr> params_type = ''email'', headers = ?h, rawBody = raw,
      body = Obj [(''a'', Num 1)] \<rparr> ''s''\<close> for raw
    using verifySignature_eq [of \<open>\<lparr> params_type = ''email'', headers = ?h, rawBody = raw,
        body = Obj [(''a'', Num 1)] \<rparr>\<close> \<open>digest ''s'' ''{"a": 1}''\<close> \<open>''{"a":1}''\<close> \<open>''s''\<close>]
    by (simp add: stringify_a1 digest_raw digest_reserialized)
  show ?thesis
    using v [of \<open>''{"a": 1}''\<close>]
    by (simp add: stringify_a1 webhookRoute_def rawBodyParser_def processWebhook_def
        signature_rejected_def error_response_def)
qed

end
